theory Spec2Isabelle
  imports Complex_Main "HOL-Library.Sublist"
begin

section \<open>Data model\<close>

text \<open>
  The factory of \<^verbatim>\<open>src/mcp_server/factory.py\<close> orchestrates external
  components. Values read from JSON documents (the tool mappings file, the OpenAPI
  specification) are Python objects of any JSON shape; a dictionary is an association
  list in which the first binding of a key is the one the dictionary holds.
\<close>

datatype json =
    JNull
  | JBool bool
  | JInt int
  | JFloat rat
  | JStr string
  | JArr "json list"
  | JObj "(string \<times> json) list"

text \<open>
  Exceptions are values. \<open>NonException\<close> stands for the exceptions that derive from
  \<^verbatim>\<open>BaseException\<close> only (\<^verbatim>\<open>asyncio.CancelledError\<close>,
  \<^verbatim>\<open>KeyboardInterrupt\<close>), which \<^verbatim>\<open>except Exception\<close> does not catch.
\<close>

datatype error =
    ValueError string
  | TypeError
  | AttributeError
  | FileNotFoundError
  | IsADirectoryError
  | NotADirectoryError
  | PermissionError
  | OSError string
  | UnicodeDecodeError
  | JSONDecodeError
  | RecursionError
  | OtherException string
  | NonException string

fun is_Exception :: "error \<Rightarrow> bool" where
  "is_Exception (NonException _) = False"
| "is_Exception _ = True"

subsection \<open>Python's view of JSON values\<close>

text \<open>Truth value of an object, as \<^verbatim>\<open>if x\<close> and \<^verbatim>\<open>not x\<close> test it.\<close>

fun truthy :: "json \<Rightarrow> bool" where
  "truthy JNull = False"
| "truthy (JBool b) = b"
| "truthy (JInt i) = (i \<noteq> 0)"
| "truthy (JFloat r) = (r \<noteq> 0)"
| "truthy (JStr s) = (s \<noteq> [])"
| "truthy (JArr xs) = (xs \<noteq> [])"
| "truthy (JObj kvs) = (kvs \<noteq> [])"

fun isinstance_list :: "json \<Rightarrow> bool" where
  "isinstance_list (JArr _) = True"
| "isinstance_list _ = False"

fun items :: "json \<Rightarrow> json list" where
  "items (JArr xs) = xs"
| "items _ = []"

text \<open>\<^verbatim>\<open>d.get(k, default)\<close> on a dictionary.\<close>

definition dict_get :: "(string \<times> json) list \<Rightarrow> string \<Rightarrow> json \<Rightarrow> json" where
  "dict_get d k dflt = (case map_of d k of None \<Rightarrow> dflt | Some v \<Rightarrow> v)"

text \<open>
  \<^verbatim>\<open>k in x\<close> for a string \<open>k\<close>: key membership on a dictionary, element
  membership on a list, substring test on a string, and \<^verbatim>\<open>TypeError\<close> on
  every object that is not a container.
\<close>

fun is_substring :: "string \<Rightarrow> string \<Rightarrow> bool" where
  "is_substring k [] = (k = [])"
| "is_substring k (c # cs) = (prefix k (c # cs) \<or> is_substring k cs)"

fun py_contains :: "string \<Rightarrow> json \<Rightarrow> error + bool" where
  "py_contains k (JObj kvs) = Inr (map_of kvs k \<noteq> None)"
| "py_contains k (JArr xs) = Inr (JStr k \<in> set xs)"
| "py_contains k (JStr t) = Inr (is_substring k t)"
| "py_contains k _ = Inl TypeError"

text \<open>
  \<^verbatim>\<open>x[k]\<close> for a string \<open>k\<close>, evaluated only after \<^verbatim>\<open>k in x\<close> held:
  the value on a dictionary, \<^verbatim>\<open>TypeError\<close> on a list or a string, whose indices are
  integers.
\<close>

fun py_getitem :: "json \<Rightarrow> string \<Rightarrow> error + json" where
  "py_getitem (JObj kvs) k = (case map_of kvs k of None \<Rightarrow> Inl (OtherException ''KeyError'') | Some v \<Rightarrow> Inr v)"
| "py_getitem _ k = Inl TypeError"

text \<open>\<^verbatim>\<open>x.keys()\<close>: only a dictionary has the method.\<close>

fun py_keys :: "json \<Rightarrow> error + string list" where
  "py_keys (JObj kvs) = Inr (map fst kvs)"
| "py_keys _ = Inl AttributeError"

subsection \<open>Objects of the libraries\<close>

text \<open>An \<^verbatim>\<open>HTTPRoute\<close> of fastmcp; the factory reads these three attributes
  (\<open>http_method\<close> is the attribute \<^verbatim>\<open>method\<close>).\<close>

record HTTPRoute =
  path :: string
  http_method :: string
  operation_id :: "string option"

datatype MCPType = TOOL | RESOURCE | RESOURCE_TEMPLATE | EXCLUDE

text \<open>
  A \<^verbatim>\<open>RouteMap\<close> of fastmcp. The fields left out by
  \<^verbatim>\<open>RouteMap(mcp_type=MCPType.EXCLUDE)\<close> take the library's defaults:
  every method (\<^verbatim>\<open>"*"\<close>) and the pattern \<^verbatim>\<open>.*\<close>.
\<close>

datatype http_methods = AnyMethod | Methods "string list"

record RouteMap =
  methods :: http_methods
  pattern :: string
  mcp_type :: MCPType

text \<open>An \<^verbatim>\<open>httpx.AsyncClient\<close>, as the arguments it was constructed with.\<close>

record 'h AsyncClient =
  client_base_url :: json
  client_headers :: "(string \<times> string) list"
  client_timeout :: rat
  client_auth :: 'h

text \<open>A \<^verbatim>\<open>FastMCP\<close> server: its name, its tools and its custom routes.\<close>

record FastMCP =
  server_name :: string
  tool_names :: "string list"
  custom_routes :: "(string \<times> string list) list"

text \<open>The arguments of the \<^verbatim>\<open>ToolTransformer\<close> constructor.\<close>

record ToolTransformer =
  tt_mcp_server :: "FastMCP option"
  tt_http_routes :: "HTTPRoute list"
  custom_tool_names :: json
  op_id_map :: "(string \<times> string) list"

text \<open>The arguments of \<^verbatim>\<open>FastMCP.from_openapi\<close>.\<close>

record 'h from_openapi_args =
  fo_openapi_spec :: "(string \<times> json) list"
  fo_client :: "'h AsyncClient"
  fo_name :: string
  fo_route_maps :: "RouteMap list"
  fo_auth :: "unit option"
  fo_mcp_component_fn :: ToolTransformer

subsection \<open>The configuration, the environment and the factory\<close>

record 'a MCPServiceConfig =
  name :: string
  openapi_path_or_url :: string
  tool_mappings_file :: "string option"
  auth :: 'a

text \<open>
  What a path of the file system holds, as \<^verbatim>\<open>open(path, "r", encoding="utf-8")\<close>
  followed by reading the file sees it. \<open>OpenRaises\<close> stands for every other way in
  which opening or reading fails, with the exception raised: \<^verbatim>\<open>NotADirectoryError\<close>
  for a path below a regular file, \<^verbatim>\<open>ValueError\<close> for a path with an embedded
  null character, any further \<^verbatim>\<open>OSError\<close>.
\<close>

datatype fs_entry =
    Directory
  | NoReadPermission
  | InvalidUtf8
  | Text string
  | OpenRaises error

text \<open>
  The components outside the factory: the file system, the JSON parser (which raises
  \<^verbatim>\<open>JSONDecodeError\<close> on a text that is not JSON, and may raise another exception,
  such as \<^verbatim>\<open>RecursionError\<close> on a text nested too deeply),
  \<^verbatim>\<open>OpenAPILoader.load\<close>,
  \<^verbatim>\<open>create_auth_handler\<close>, the exception the constructor of
  \<^verbatim>\<open>httpx.AsyncClient\<close> raises on its arguments (if any),
  \<^verbatim>\<open>FastMCP.from_openapi\<close> and \<^verbatim>\<open>ToolTransformer.transform_tools\<close>.
  The last two call back into the transformer, which writes to the shared
  \<^verbatim>\<open>op_id_map\<close> dictionary: they return its new contents as well.
\<close>

record ('a, 'h) env =
  fs :: "string \<Rightarrow> fs_entry option"
  json_loads :: "string \<Rightarrow> error + json"
  loader_load :: "string \<Rightarrow> error + ((string \<times> json) list \<times> HTTPRoute list)"
  create_auth_handler :: "'a \<Rightarrow> error + 'h"
  async_client_raises :: "'h AsyncClient \<Rightarrow> error option"
  from_openapi :: "'h from_openapi_args \<Rightarrow> (error + FastMCP) \<times> (string \<times> string) list"
  tt_transform_tools :: "ToolTransformer \<Rightarrow> (error + FastMCP) \<times> (string \<times> string) list"

text \<open>The steps of \<^verbatim>\<open>build\<close>, and the calls that leave the factory.\<close>

datatype step =
    LoadToolMappings
  | LoadOpenapiSpec
  | DetermineBaseUrl
  | CreateApiClient
  | CreateMcpServer
  | TransformTools

datatype 'h call =
    Enter step
  | New_AsyncClient "'h AsyncClient"
  | From_openapi "'h from_openapi_args"
  | Transform_tools ToolTransformer
  | Aclose "'h AsyncClient"

text \<open>
  The attributes of \<^verbatim>\<open>MCPFactory\<close> (the logger apart), and \<open>calls\<close>: the
  steps entered and the external calls made so far, in program order.
\<close>

record ('a, 'h) MCPFactory =
  config :: "'a MCPServiceConfig"
  api_client :: "'h AsyncClient option"
  openapi_spec :: "(string \<times> json) list option"
  http_routes :: "HTTPRoute list option"
  base_url :: "json option"
  op_id_to_mangled_name :: "(string \<times> string) list"
  tool_mappings :: json
  calls :: "'h call list"

definition init :: "'a MCPServiceConfig \<Rightarrow> ('a, 'h) MCPFactory" where
  "init cfg =
     \<lparr>config = cfg, api_client = None, openapi_spec = None, http_routes = None,
      base_url = None, op_id_to_mangled_name = [], tool_mappings = JObj [], calls = []\<rparr>"

section \<open>The methods of the factory\<close>

text \<open>
  Python's leading underscore is dropped from the names: \<open>load_tool_mappings\<close> is
  \<^verbatim>\<open>_load_tool_mappings\<close>, and so on.
\<close>

subsection \<open>\<^verbatim>\<open>_load_tool_mappings\<close>\<close>

text \<open>
  \<^verbatim>\<open>with open(path, "r", encoding="utf-8") as f: mappings = json.load(f)\<close>
\<close>

definition open_and_load :: "('a, 'h) env \<Rightarrow> string \<Rightarrow> error + json" where
  "open_and_load e p =
     (case fs e p of
        None \<Rightarrow> Inl FileNotFoundError
      | Some Directory \<Rightarrow> Inl IsADirectoryError
      | Some NoReadPermission \<Rightarrow> Inl PermissionError
      | Some InvalidUtf8 \<Rightarrow> Inl UnicodeDecodeError
      | Some (OpenRaises err) \<Rightarrow> Inl err
      | Some (Text t) \<Rightarrow> json_loads e t)"

text \<open>\<^verbatim>\<open>not self.config.tool_mappings_file\<close>: no path, or the empty one.\<close>

definition no_mappings_file :: "'a MCPServiceConfig \<Rightarrow> bool" where
  "no_mappings_file cfg =
     (case tool_mappings_file cfg of None \<Rightarrow> True | Some p \<Rightarrow> p = [])"

definition load_tool_mappings :: "('a, 'h) env \<Rightarrow> 'a MCPServiceConfig \<Rightarrow> error + json" where
  "load_tool_mappings e cfg =
     (case tool_mappings_file cfg of
        None \<Rightarrow> Inr (JObj [])
      | Some p \<Rightarrow>
          if p = [] then Inr (JObj [])
          else (case open_and_load e p of
                  Inr mappings \<Rightarrow> Inr mappings
                | Inl FileNotFoundError \<Rightarrow> Inr (JObj [])
                | Inl JSONDecodeError \<Rightarrow> Inr (JObj [])
                | Inl other \<Rightarrow> Inl other))"

subsection \<open>\<^verbatim>\<open>_load_openapi_spec\<close>\<close>

text \<open>
  Both attributes are assigned from the pair the loader returns; when the loader raises,
  neither is.
\<close>

definition load_openapi_spec ::
  "('a, 'h) env \<Rightarrow> ('a, 'h) MCPFactory \<Rightarrow> (error + unit) \<times> ('a, 'h) MCPFactory" where
  "load_openapi_spec e s =
     (case loader_load e (openapi_path_or_url (config s)) of
        Inl err \<Rightarrow> (Inl err, s)
      | Inr (spec, routes) \<Rightarrow>
          (Inr (), s\<lparr>openapi_spec := Some spec, http_routes := Some routes\<rparr>))"

subsection \<open>\<^verbatim>\<open>_determine_base_url\<close>\<close>

text \<open>\<^verbatim>\<open>not self.openapi_spec\<close>: \<^verbatim>\<open>None\<close>, or a dictionary with no entry.\<close>

definition not_openapi_spec :: "('a, 'h) MCPFactory \<Rightarrow> bool" where
  "not_openapi_spec s = (case openapi_spec s of None \<Rightarrow> True | Some spec \<Rightarrow> spec = [])"

definition default_base_url :: json where
  "default_base_url = JStr ''http://localhost:8000''"

text \<open>
  The first three conjuncts of the condition; \<^verbatim>\<open>and\<close> evaluates
  \<^verbatim>\<open>"url" in servers[0]\<close> only when they hold.
\<close>

definition servers_nonempty_list :: "json \<Rightarrow> bool" where
  "servers_nonempty_list servers =
     (truthy servers \<and> isinstance_list servers \<and> 0 < length (items servers))"

definition determine_base_url ::
  "('a, 'h) MCPFactory \<Rightarrow> (error + unit) \<times> ('a, 'h) MCPFactory" where
  "determine_base_url s =
     (case openapi_spec s of
        None \<Rightarrow> (Inl (ValueError ''OpenAPI specification not loaded''), s)
      | Some spec \<Rightarrow>
          if spec = [] then (Inl (ValueError ''OpenAPI specification not loaded''), s)
          else
            let servers = dict_get spec ''servers'' (JArr []) in
            if servers_nonempty_list servers then
              (case py_contains ''url'' (hd (items servers)) of
                 Inl err \<Rightarrow> (Inl err, s)
               | Inr True \<Rightarrow>
                   (case py_getitem (hd (items servers)) ''url'' of
                      Inl err \<Rightarrow> (Inl err, s)
                    | Inr u \<Rightarrow> (Inr (), s\<lparr>base_url := Some u\<rparr>))
               | Inr False \<Rightarrow> (Inr (), s\<lparr>base_url := Some default_base_url\<rparr>))
            else (Inr (), s\<lparr>base_url := Some default_base_url\<rparr>))"

subsection \<open>\<^verbatim>\<open>_create_api_client\<close>\<close>

definition client_headers_const :: "(string \<times> string) list" where
  "client_headers_const =
     [(''User-Agent'', ''DataInclusion-MCP-Server/1.0''), (''Accept'', ''application/json'')]"

definition create_api_client ::
  "('a, 'h) env \<Rightarrow> ('a, 'h) MCPFactory \<Rightarrow> (error + unit) \<times> ('a, 'h) MCPFactory" where
  "create_api_client e s =
     (case base_url s of
        None \<Rightarrow> (Inl (ValueError ''Base URL not determined''), s)
      | Some u \<Rightarrow>
          if \<not> truthy u then (Inl (ValueError ''Base URL not determined''), s)
          else
            (case create_auth_handler e (auth (config s)) of
               Inl err \<Rightarrow> (Inl err, s)
             | Inr auth_handler \<Rightarrow>
                 let client = \<lparr>client_base_url = u, client_headers = client_headers_const,
                               client_timeout = 30, client_auth = auth_handler\<rparr>;
                     s1 = s\<lparr>calls := calls s @ [New_AsyncClient client]\<rparr>
                 in (case async_client_raises e client of
                       Some err \<Rightarrow> (Inl err, s1)
                     | None \<Rightarrow> (Inr (), s1\<lparr>api_client := Some client\<rparr>))))"

subsection \<open>\<^verbatim>\<open>_create_mcp_server\<close>\<close>

text \<open>\<^verbatim>\<open>route.operation_id in allowed_op_ids\<close>, on a set of strings.\<close>

definition op_id_allowed :: "string list \<Rightarrow> HTTPRoute \<Rightarrow> bool" where
  "op_id_allowed allowed route =
     (case operation_id route of None \<Rightarrow> False | Some i \<Rightarrow> i \<in> set allowed)"

definition tool_route_map :: "HTTPRoute \<Rightarrow> RouteMap" where
  "tool_route_map route =
     \<lparr>methods = Methods [http_method route], pattern = ''^'' @ path route @ ''$'',
      mcp_type = TOOL\<rparr>"

definition exclude_route_map :: RouteMap where
  "exclude_route_map = \<lparr>methods = AnyMethod, pattern = ''.*'', mcp_type = EXCLUDE\<rparr>"

text \<open>The loop over \<^verbatim>\<open>self.http_routes\<close>, appending to \<^verbatim>\<open>route_maps\<close>.\<close>

fun route_maps_loop :: "string list \<Rightarrow> HTTPRoute list \<Rightarrow> RouteMap list \<Rightarrow> RouteMap list" where
  "route_maps_loop allowed [] route_maps = route_maps"
| "route_maps_loop allowed (route # routes) route_maps =
     route_maps_loop allowed routes
       (if op_id_allowed allowed route then route_maps @ [tool_route_map route]
        else route_maps)"

text \<open>
  Lines 170 to 183: the list \<^verbatim>\<open>route_maps\<close>. Calling \<^verbatim>\<open>keys()\<close> on mappings
  that are not a dictionary raises.
\<close>

definition build_route_maps ::
  "'a MCPServiceConfig \<Rightarrow> json \<Rightarrow> HTTPRoute list \<Rightarrow> error + RouteMap list" where
  "build_route_maps cfg mappings routes =
     (if name cfg = ''datainclusion'' then
        (case py_keys mappings of
           Inl err \<Rightarrow> Inl err
         | Inr allowed_op_ids \<Rightarrow>
             Inr (route_maps_loop allowed_op_ids routes [] @ [exclude_route_map]))
      else Inr [])"

definition health_route :: "string \<times> string list" where
  "health_route = (''/health'', [''GET''])"

definition create_mcp_server ::
  "('a, 'h) env \<Rightarrow> ('a, 'h) MCPFactory \<Rightarrow> (error + FastMCP) \<times> ('a, 'h) MCPFactory" where
  "create_mcp_server e s =
     (case openapi_spec s of
        None \<Rightarrow> (Inl (ValueError ''OpenAPI specification not loaded''), s)
      | Some spec \<Rightarrow>
     if spec = [] then (Inl (ValueError ''OpenAPI specification not loaded''), s) else
     (case http_routes s of
        None \<Rightarrow> (Inl (ValueError ''HTTP routes not loaded''), s)
      | Some routes \<Rightarrow>
     if routes = [] then (Inl (ValueError ''HTTP routes not loaded''), s) else
     (case api_client s of
        None \<Rightarrow> (Inl (ValueError ''API client not created''), s)
      | Some client \<Rightarrow>
     (case build_route_maps (config s) (tool_mappings s) routes of
        Inl err \<Rightarrow> (Inl err, s)
      | Inr route_maps \<Rightarrow>
          let temp_transformer =
                \<lparr>tt_mcp_server = None, tt_http_routes = routes,
                 custom_tool_names = tool_mappings s,
                 op_id_map = op_id_to_mangled_name s\<rparr>;
              args =
                \<lparr>fo_openapi_spec = spec, fo_client = client, fo_name = name (config s),
                 fo_route_maps = route_maps, fo_auth = None,
                 fo_mcp_component_fn = temp_transformer\<rparr>;
              s1 = s\<lparr>calls := calls s @ [From_openapi args]\<rparr>
          in (case from_openapi e args of
                (Inl err, m) \<Rightarrow> (Inl err, s1\<lparr>op_id_to_mangled_name := m\<rparr>)
              | (Inr mcp_server, m) \<Rightarrow>
                  (Inr (mcp_server\<lparr>custom_routes := custom_routes mcp_server @ [health_route]\<rparr>),
                   s1\<lparr>op_id_to_mangled_name := m\<rparr>))))))"

subsection \<open>\<^verbatim>\<open>_transform_tools\<close>\<close>

text \<open>
  The transformer changes the server it was given in place; the model returns the server
  as the transformer left it.
\<close>

definition transform_tools ::
  "('a, 'h) env \<Rightarrow> FastMCP \<Rightarrow> ('a, 'h) MCPFactory \<Rightarrow> (error + FastMCP) \<times> ('a, 'h) MCPFactory" where
  "transform_tools e mcp_server s =
     (case http_routes s of
        None \<Rightarrow> (Inl (ValueError ''HTTP routes not loaded''), s)
      | Some routes \<Rightarrow>
          if routes = [] then (Inl (ValueError ''HTTP routes not loaded''), s)
          else
            let tool_transformer =
                  \<lparr>tt_mcp_server = Some mcp_server, tt_http_routes = routes,
                   custom_tool_names = tool_mappings s,
                   op_id_map = op_id_to_mangled_name s\<rparr>;
                s1 = s\<lparr>calls := calls s @ [Transform_tools tool_transformer]\<rparr>
            in (case tt_transform_tools e tool_transformer of
                  (Inl err, m) \<Rightarrow> (Inl err, s1\<lparr>op_id_to_mangled_name := m\<rparr>)
                | (Inr mcp_server', m) \<Rightarrow> (Inr mcp_server', s1\<lparr>op_id_to_mangled_name := m\<rparr>)))"

subsection \<open>\<^verbatim>\<open>build\<close>\<close>

definition enter :: "step \<Rightarrow> ('a, 'h) MCPFactory \<Rightarrow> ('a, 'h) MCPFactory" where
  "enter st s = s\<lparr>calls := calls s @ [Enter st]\<rparr>"

text \<open>The body of the \<^verbatim>\<open>try\<close>: the first step that raises ends it.\<close>

definition build_steps ::
  "('a, 'h) env \<Rightarrow> ('a, 'h) MCPFactory \<Rightarrow> (error + FastMCP) \<times> ('a, 'h) MCPFactory" where
  "build_steps e s =
     (let s0 = enter LoadToolMappings s in
      case load_tool_mappings e (config s0) of
        Inl err \<Rightarrow> (Inl err, s0)
      | Inr mappings \<Rightarrow>
     (case load_openapi_spec e (enter LoadOpenapiSpec (s0\<lparr>tool_mappings := mappings\<rparr>)) of
        (Inl err, s2) \<Rightarrow> (Inl err, s2)
      | (Inr _, s2) \<Rightarrow>
     (case determine_base_url (enter DetermineBaseUrl s2) of
        (Inl err, s3) \<Rightarrow> (Inl err, s3)
      | (Inr _, s3) \<Rightarrow>
     (case create_api_client e (enter CreateApiClient s3) of
        (Inl err, s4) \<Rightarrow> (Inl err, s4)
      | (Inr _, s4) \<Rightarrow>
     (case create_mcp_server e (enter CreateMcpServer s4) of
        (Inl err, s5) \<Rightarrow> (Inl err, s5)
      | (Inr mcp_server, s5) \<Rightarrow>
          transform_tools e mcp_server (enter TransformTools s5))))))"

text \<open>
  The handler of \<^verbatim>\<open>except Exception\<close>: it closes the client when
  \<^verbatim>\<open>self.api_client\<close> is set, then raises the exception again. An exception
  outside \<^verbatim>\<open>Exception\<close> passes the handler by. Closing is the call
  \<^verbatim>\<open>aclose()\<close> of httpx, taken to return normally.
\<close>

definition close_client :: "('a, 'h) MCPFactory \<Rightarrow> ('a, 'h) MCPFactory" where
  "close_client s =
     (case api_client s of
        None \<Rightarrow> s
      | Some client \<Rightarrow> s\<lparr>calls := calls s @ [Aclose client]\<rparr>)"

definition build ::
  "('a, 'h) env \<Rightarrow> ('a, 'h) MCPFactory \<Rightarrow> (error + FastMCP) \<times> ('a, 'h) MCPFactory" where
  "build e s =
     (case build_steps e s of
        (Inr mcp_server, s') \<Rightarrow> (Inr mcp_server, s')
      | (Inl err, s') \<Rightarrow>
          if is_Exception err then (Inl err, close_client s') else (Inl err, s'))"

subsection \<open>The order of the steps\<close>

fun steps_entered :: "'h call list \<Rightarrow> step list" where
  "steps_entered [] = []"
| "steps_entered (Enter st # cs) = st # steps_entered cs"
| "steps_entered (_ # cs) = steps_entered cs"


subsection \<open>The tool transformer\<close>

text \<open>
  Modelled from the spec: \<^verbatim>\<open>tool_transformer.py\<close> is not among the sources. The spec
  describes the renaming as a lookup table from operation id to custom tool name: the
  name the transformer applies to the tool of an operation is the value its
  \<^verbatim>\<open>custom_tool_names\<close> table holds for the operation id, and none when the table has
  no such key.
\<close>

definition custom_name_applied :: "ToolTransformer \<Rightarrow> string \<Rightarrow> json option" where
  "custom_name_applied tt op_id =
     (case custom_tool_names tt of JObj table \<Rightarrow> map_of table op_id | _ \<Rightarrow> None)"

section \<open>\<^verbatim>\<open>create_api_client\<close> of \<^verbatim>\<open>src/utils.py\<close>\<close>

text \<open>
  The function reads \<^verbatim>\<open>DATA_INCLUSION_API_KEY\<close> from the process environment
  (\<open>getenv\<close>) and passes no \<^verbatim>\<open>auth\<close> argument to the client; what it prints is
  left out.
\<close>

definition utils_create_api_client ::
  "(string \<Rightarrow> string option) \<Rightarrow> json \<Rightarrow> 'h option AsyncClient" where
  "utils_create_api_client getenv base =
     (let headers =
            (case getenv ''DATA_INCLUSION_API_KEY'' of
               None \<Rightarrow> []
             | Some api_key \<Rightarrow>
                 if api_key \<noteq> [] then [(''Authorization'', ''Bearer '' @ api_key)] else [])
      in \<lparr>client_base_url = base,
          client_headers =
            headers @ [(''User-Agent'', ''DataInclusion-MCP-Server/1.0''),
                       (''Accept'', ''application/json'')],
          client_timeout = 30, client_auth = None\<rparr>)"

section \<open>Example inputs\<close>

definition example_fs :: "string \<Rightarrow> fs_entry option" where
  "example_fs p =
     (if p = ''mappings.json'' then Some (Text ''{\"list_structures\": \"list_all_structures\"}'')
      else if p = ''broken.json'' then Some (Text ''{not json'')
      else if p = ''mappings.d'' then Some Directory
      else if p = ''secret.json'' then Some NoReadPermission
      else if p = ''latin1.json'' then Some InvalidUtf8
      else if p = ''mappings.json/x'' then Some (OpenRaises NotADirectoryError)
      else None)"

definition example_mappings :: json where
  "example_mappings = JObj [(''list_structures'', JStr ''list_all_structures'')]"

definition example_json_loads :: "string \<Rightarrow> error + json" where
  "example_json_loads t =
     (if t = ''{\"list_structures\": \"list_all_structures\"}'' then Inr example_mappings
      else Inl JSONDecodeError)"

definition example_spec :: "(string \<times> json) list" where
  "example_spec =
     [(''openapi'', JStr ''3.0.0''),
      (''servers'', JArr [JObj [(''url'', JStr ''https://api.example.org'')]])]"

definition example_routes :: "HTTPRoute list" where
  "example_routes =
     [\<lparr>path = ''/structures'', http_method = ''GET'', operation_id = Some ''list_structures''\<rparr>,
      \<lparr>path = ''/services'', http_method = ''GET'', operation_id = Some ''list_services''\<rparr>,
      \<lparr>path = ''/docs'', http_method = ''GET'', operation_id = None\<rparr>]"

definition example_from_openapi ::
  "string from_openapi_args \<Rightarrow> (error + FastMCP) \<times> (string \<times> string) list" where
  "example_from_openapi args =
     (Inr \<lparr>server_name = fo_name args, tool_names = [''list_structures_get''],
           custom_routes = []\<rparr>,
      [(''list_structures'', ''list_structures_get'')])"

definition example_transform_tools ::
  "ToolTransformer \<Rightarrow> (error + FastMCP) \<times> (string \<times> string) list" where
  "example_transform_tools tt =
     (case tt_mcp_server tt of
        None \<Rightarrow> (Inl AttributeError, op_id_map tt)
      | Some srv \<Rightarrow> (Inr (srv\<lparr>tool_names := [''list_all_structures'']\<rparr>), op_id_map tt))"

definition example_env :: "(string, string) env" where
  "example_env =
     \<lparr>fs = example_fs, json_loads = example_json_loads,
      loader_load =
        (\<lambda>u. if u = ''openapi.json'' then Inr (example_spec, example_routes)
             else Inl (OtherException ''cannot load'')),
      create_auth_handler = (\<lambda>a. Inr (''handler for '' @ a)),
      async_client_raises = (\<lambda>c. None),
      from_openapi = example_from_openapi,
      tt_transform_tools = example_transform_tools\<rparr>"

definition example_config :: "string MCPServiceConfig" where
  "example_config =
     \<lparr>name = ''datainclusion'', openapi_path_or_url = ''openapi.json'',
      tool_mappings_file = Some ''mappings.json'', auth = ''bearer''\<rparr>"

definition example_client :: "string AsyncClient" where
  "example_client =
     \<lparr>client_base_url = JStr ''https://api.example.org'',
      client_headers =
        [(''User-Agent'', ''DataInclusion-MCP-Server/1.0''), (''Accept'', ''application/json'')],
      client_timeout = 30, client_auth = ''handler for bearer''\<rparr>"

definition example_factory :: "(string, string) MCPFactory" where
  "example_factory = init example_config"

text \<open>An environment in which \<^verbatim>\<open>FastMCP.from_openapi\<close> rejects the specification.\<close>

definition example_failing_env :: "(string, string) env" where
  "example_failing_env =
     example_env\<lparr>from_openapi := (\<lambda>args. (Inl (ValueError ''invalid specification''), []))\<rparr>"

text \<open>An environment in which the task is cancelled while the transformer runs.\<close>

definition example_cancelled_env :: "(string, string) env" where
  "example_cancelled_env =
     example_env\<lparr>tt_transform_tools :=
       (\<lambda>tt. (Inl (NonException ''CancelledError''), op_id_map tt))\<rparr>"

section \<open>Auxiliary facts\<close>

lemma route_maps_loop_eq:
  "route_maps_loop allowed routes acc =
     acc @ map tool_route_map (filter (op_id_allowed allowed) routes)"
  by (induction routes arbitrary: acc) auto

lemma op_id_allowed_keys:
  "op_id_allowed (map fst table) route \<longleftrightarrow>
     (\<exists>i v. operation_id route = Some i \<and> map_of table i = Some v)"
proof (cases "operation_id route")
  case None
  then show ?thesis by (simp add: op_id_allowed_def)
next
  case (Some i)
  have "i \<in> fst ` set table \<longleftrightarrow> (\<exists>v. map_of table i = Some v)"
    by (metis map_of_eq_None_iff not_Some_eq)
  with Some show ?thesis by (simp add: op_id_allowed_def)
qed

lemma steps_entered_append:
  "steps_entered (xs @ ys) = steps_entered xs @ steps_entered ys"
  by (induction xs rule: steps_entered.induct) auto

lemma enter_simps [simp]:
  "calls (enter st s) = calls s @ [Enter st]"
  "config (enter st s) = config s"
  "api_client (enter st s) = api_client s"
  "openapi_spec (enter st s) = openapi_spec s"
  "http_routes (enter st s) = http_routes s"
  "base_url (enter st s) = base_url s"
  "op_id_to_mangled_name (enter st s) = op_id_to_mangled_name s"
  "tool_mappings (enter st s) = tool_mappings s"
  by (simp_all add: enter_def)

lemmas example_defs =
  example_env_def example_config_def example_fs_def example_json_loads_def
  example_mappings_def example_spec_def example_routes_def example_from_openapi_def
  example_transform_tools_def example_factory_def example_client_def init_def
  example_failing_env_def example_cancelled_env_def

section \<open>Loading the tool mappings\<close>

text \<open>
  C5, as stated: \<^verbatim>\<open>_load_tool_mappings\<close> never raises. It does when the configured
  path is a directory: \<^verbatim>\<open>open\<close> raises \<^verbatim>\<open>IsADirectoryError\<close>, which neither
  handler catches.
\<close>

theorem load_tool_mappings_never_raises_counterexample:
  "load_tool_mappings example_env (example_config\<lparr>tool_mappings_file := Some ''mappings.d''\<rparr>)
     = Inl IsADirectoryError"
  by (simp add: load_tool_mappings_def open_and_load_def example_defs)

lemma load_tool_mappings_configured:
  assumes "tool_mappings_file cfg = Some p" and "p \<noteq> []"
  shows "load_tool_mappings e cfg =
    (case open_and_load e p of
       Inr mappings \<Rightarrow> Inr mappings
     | Inl err \<Rightarrow>
         if err = FileNotFoundError \<or> err = JSONDecodeError then Inr (JObj []) else Inl err)"
  using assms by (simp add: load_tool_mappings_def split: sum.splits error.splits)

text \<open>
  C5, amended: \<^verbatim>\<open>_load_tool_mappings\<close> returns the empty dictionary when no mappings
  file is configured, when opening and reading the file raises \<^verbatim>\<open>FileNotFoundError\<close>
  (the file does not exist) and when it raises \<^verbatim>\<open>JSONDecodeError\<close> (the text is not
  JSON); it returns the parsed value when the file is read and parsed; every other
  exception of \<^verbatim>\<open>open\<close> and \<^verbatim>\<open>json.load\<close> (a directory, a path below a regular
  file, no read permission, bytes that are not UTF-8, and whatever else they raise)
  reaches the caller unchanged. It never raises \<^verbatim>\<open>FileNotFoundError\<close> or
  \<^verbatim>\<open>JSONDecodeError\<close>.
\<close>

theorem load_tool_mappings_cases:
  "(no_mappings_file cfg \<longrightarrow> load_tool_mappings e cfg = Inr (JObj [])) \<and>
   (tool_mappings_file cfg = Some p \<and> p \<noteq> [] \<longrightarrow>
      (open_and_load e p = Inl FileNotFoundError \<longrightarrow> load_tool_mappings e cfg = Inr (JObj [])) \<and>
      (open_and_load e p = Inl JSONDecodeError \<longrightarrow> load_tool_mappings e cfg = Inr (JObj [])) \<and>
      (\<forall>v. open_and_load e p = Inr v \<longrightarrow> load_tool_mappings e cfg = Inr v) \<and>
      (\<forall>err. open_and_load e p = Inl err \<and> err \<noteq> FileNotFoundError \<and> err \<noteq> JSONDecodeError
          \<longrightarrow> load_tool_mappings e cfg = Inl err) \<and>
      (fs e p = None \<longrightarrow> load_tool_mappings e cfg = Inr (JObj [])) \<and>
      (\<forall>t. fs e p = Some (Text t) \<and> json_loads e t = Inl JSONDecodeError \<longrightarrow>
           load_tool_mappings e cfg = Inr (JObj [])) \<and>
      (\<forall>t v. fs e p = Some (Text t) \<and> json_loads e t = Inr v \<longrightarrow>
           load_tool_mappings e cfg = Inr v) \<and>
      (fs e p = Some Directory \<longrightarrow> load_tool_mappings e cfg = Inl IsADirectoryError) \<and>
      (fs e p = Some NoReadPermission \<longrightarrow> load_tool_mappings e cfg = Inl PermissionError) \<and>
      (fs e p = Some InvalidUtf8 \<longrightarrow> load_tool_mappings e cfg = Inl UnicodeDecodeError) \<and>
      (\<forall>err. fs e p = Some (OpenRaises err) \<and> err \<noteq> FileNotFoundError \<and>
             err \<noteq> JSONDecodeError \<longrightarrow> load_tool_mappings e cfg = Inl err)) \<and>
   (\<forall>err. load_tool_mappings e cfg = Inl err \<longrightarrow>
      err \<noteq> FileNotFoundError \<and> err \<noteq> JSONDecodeError \<and>
      (\<exists>p. tool_mappings_file cfg = Some p \<and> open_and_load e p = Inl err))"
proof (intro conjI impI allI)
  assume "no_mappings_file cfg"
  then show "load_tool_mappings e cfg = Inr (JObj [])"
    by (auto simp: load_tool_mappings_def no_mappings_file_def split: option.splits)
next
  fix err
  assume raised: "load_tool_mappings e cfg = Inl err"
  then obtain q where q: "tool_mappings_file cfg = Some q" "q \<noteq> []"
    by (auto simp: load_tool_mappings_def split: option.splits if_splits)
  from raised show "err \<noteq> FileNotFoundError"
    by (auto simp: load_tool_mappings_configured [OF q] split: sum.splits if_splits)
  from raised show "err \<noteq> JSONDecodeError"
    by (auto simp: load_tool_mappings_configured [OF q] split: sum.splits if_splits)
  from raised have "open_and_load e q = Inl err"
    by (auto simp: load_tool_mappings_configured [OF q] split: sum.splits if_splits)
  with q show "\<exists>p. tool_mappings_file cfg = Some p \<and> open_and_load e p = Inl err"
    by blast
qed (simp_all add: load_tool_mappings_configured open_and_load_def)

theorem load_tool_mappings_cases_witness:
  "load_tool_mappings example_env (example_config\<lparr>tool_mappings_file := None\<rparr>) = Inr (JObj []) \<and>
   load_tool_mappings example_env (example_config\<lparr>tool_mappings_file := Some ''missing.json''\<rparr>)
     = Inr (JObj []) \<and>
   load_tool_mappings example_env (example_config\<lparr>tool_mappings_file := Some ''broken.json''\<rparr>)
     = Inr (JObj []) \<and>
   load_tool_mappings example_env example_config = Inr example_mappings \<and>
   load_tool_mappings example_env (example_config\<lparr>tool_mappings_file := Some ''secret.json''\<rparr>)
     = Inl PermissionError \<and>
   load_tool_mappings example_env
     (example_config\<lparr>tool_mappings_file := Some ''mappings.json/x''\<rparr>) = Inl NotADirectoryError"
  using
    load_tool_mappings_cases [where cfg = "example_config\<lparr>tool_mappings_file := None\<rparr>"
      and e = example_env]
    load_tool_mappings_cases [where cfg = "example_config\<lparr>tool_mappings_file := Some ''missing.json''\<rparr>"
      and p = "''missing.json''" and e = example_env]
    load_tool_mappings_cases [where cfg = "example_config\<lparr>tool_mappings_file := Some ''broken.json''\<rparr>"
      and p = "''broken.json''" and e = example_env]
    load_tool_mappings_cases [where cfg = example_config and p = "''mappings.json''"
      and e = example_env]
    load_tool_mappings_cases [where cfg = "example_config\<lparr>tool_mappings_file := Some ''secret.json''\<rparr>"
      and p = "''secret.json''" and e = example_env]
    load_tool_mappings_cases
      [where cfg = "example_config\<lparr>tool_mappings_file := Some ''mappings.json/x''\<rparr>"
       and p = "''mappings.json/x''" and e = example_env]
  by (simp add: no_mappings_file_def open_and_load_def example_defs)

section \<open>Determining the base URL\<close>

text \<open>
  C6, as stated: whenever the specification is loaded and has no \<^verbatim>\<open>servers\<close> entry,
  the base URL becomes the default. A loaded specification that is the empty dictionary
  has no such entry, and the method raises \<^verbatim>\<open>ValueError\<close> and leaves the base URL
  unset: \<^verbatim>\<open>not self.openapi_spec\<close> holds for it as for \<^verbatim>\<open>None\<close>.
\<close>

theorem determine_base_url_empty_spec_counterexample:
  "determine_base_url (example_factory\<lparr>openapi_spec := Some []\<rparr>) =
     (Inl (ValueError ''OpenAPI specification not loaded''),
      example_factory\<lparr>openapi_spec := Some []\<rparr>)"
  by (simp add: determine_base_url_def)

text \<open>
  A first element of \<^verbatim>\<open>servers\<close> that is no dictionary is outside the amended claim:
  on \<^verbatim>\<open>null\<close>, a number or a boolean the membership test itself raises.
\<close>

lemma determine_base_url_first_not_dict:
  "determine_base_url (example_factory\<lparr>openapi_spec := Some [(''servers'', JArr [JNull])]\<rparr>) =
     (Inl TypeError, example_factory\<lparr>openapi_spec := Some [(''servers'', JArr [JNull])]\<rparr>)"
  by (simp add: determine_base_url_def dict_get_def servers_nonempty_list_def)

text \<open>
  C6, amended: \<^verbatim>\<open>_determine_base_url\<close> raises \<^verbatim>\<open>ValueError\<close> when the specification
  is \<^verbatim>\<open>None\<close> or empty. On a specification with an entry, it sets the base URL to
  \<^verbatim>\<open>servers[0]["url"]\<close> when \<^verbatim>\<open>servers\<close> is a list whose first element is a dictionary
  with the key \<^verbatim>\<open>url\<close>, and to the default \<^verbatim>\<open>http://localhost:8000\<close> when
  \<^verbatim>\<open>servers\<close> is absent, is the empty list, is no list, or has a first element that
  is a dictionary without the key \<^verbatim>\<open>url\<close>.
\<close>

theorem determine_base_url_cases:
  "(not_openapi_spec s \<longrightarrow>
      determine_base_url s = (Inl (ValueError ''OpenAPI specification not loaded''), s)) \<and>
   (openapi_spec s = Some spec \<and> spec \<noteq> [] \<longrightarrow>
      (\<forall>first rest u.
          map_of spec ''servers'' = Some (JArr (JObj first # rest)) \<and>
          map_of first ''url'' = Some u \<longrightarrow>
          determine_base_url s = (Inr (), s\<lparr>base_url := Some u\<rparr>)) \<and>
      (\<forall>first rest.
          map_of spec ''servers'' = Some (JArr (JObj first # rest)) \<and>
          map_of first ''url'' = None \<longrightarrow>
          determine_base_url s =
            (Inr (), s\<lparr>base_url := Some (JStr ''http://localhost:8000'')\<rparr>)) \<and>
      (map_of spec ''servers'' = None \<or> map_of spec ''servers'' = Some (JArr []) \<longrightarrow>
          determine_base_url s =
            (Inr (), s\<lparr>base_url := Some (JStr ''http://localhost:8000'')\<rparr>)) \<and>
      (\<forall>v. map_of spec ''servers'' = Some v \<and> \<not> isinstance_list v \<longrightarrow>
          determine_base_url s =
            (Inr (), s\<lparr>base_url := Some (JStr ''http://localhost:8000'')\<rparr>)))"
proof (intro conjI impI allI)
  assume "not_openapi_spec s"
  then show "determine_base_url s = (Inl (ValueError ''OpenAPI specification not loaded''), s)"
    by (auto simp: not_openapi_spec_def determine_base_url_def split: option.splits)
next
  fix v
  assume "openapi_spec s = Some spec \<and> spec \<noteq> []"
    and "map_of spec ''servers'' = Some v \<and> \<not> isinstance_list v"
  then show "determine_base_url s =
      (Inr (), s\<lparr>base_url := Some (JStr ''http://localhost:8000'')\<rparr>)"
    by (simp add: determine_base_url_def dict_get_def servers_nonempty_list_def
        default_base_url_def)
next
  assume "openapi_spec s = Some spec \<and> spec \<noteq> []"
    and "map_of spec ''servers'' = None \<or> map_of spec ''servers'' = Some (JArr [])"
  then show "determine_base_url s =
      (Inr (), s\<lparr>base_url := Some (JStr ''http://localhost:8000'')\<rparr>)"
    by (auto simp: determine_base_url_def dict_get_def servers_nonempty_list_def
        default_base_url_def)
qed (simp_all add: determine_base_url_def dict_get_def servers_nonempty_list_def
      default_base_url_def)

theorem determine_base_url_cases_witness:
  "determine_base_url (example_factory\<lparr>openapi_spec := Some example_spec\<rparr>) =
     (Inr (), example_factory\<lparr>openapi_spec := Some example_spec,
                base_url := Some (JStr ''https://api.example.org'')\<rparr>) \<and>
   determine_base_url (example_factory\<lparr>openapi_spec := Some [(''openapi'', JStr ''3.0.0'')]\<rparr>) =
     (Inr (), example_factory\<lparr>openapi_spec := Some [(''openapi'', JStr ''3.0.0'')],
                base_url := Some (JStr ''http://localhost:8000'')\<rparr>) \<and>
   determine_base_url example_factory =
     (Inl (ValueError ''OpenAPI specification not loaded''), example_factory)"
  using
    determine_base_url_cases [where s = "example_factory\<lparr>openapi_spec := Some example_spec\<rparr>"
      and spec = example_spec]
    determine_base_url_cases
      [where s = "example_factory\<lparr>openapi_spec := Some [(''openapi'', JStr ''3.0.0'')]\<rparr>"
       and spec = "[(''openapi'', JStr ''3.0.0'')]"]
    determine_base_url_cases [where s = example_factory and spec = "[]"]
  by (simp add: not_openapi_spec_def example_defs)

section \<open>Selecting the routes\<close>

lemma build_route_maps_dict:
  "build_route_maps cfg (JObj table) routes =
     Inr (if name cfg = ''datainclusion''
          then map tool_route_map (filter (op_id_allowed (map fst table)) routes)
                 @ [exclude_route_map]
          else [])"
  by (simp add: build_route_maps_def route_maps_loop_eq)

lemma create_mcp_server_call:
  assumes "openapi_spec s = Some spec" and "spec \<noteq> []"
    and "http_routes s = Some routes" and "routes \<noteq> []"
    and "api_client s = Some client"
    and "build_route_maps (config s) (tool_mappings s) routes = Inr route_maps"
  shows "\<exists>args. calls (snd (create_mcp_server e s)) = calls s @ [From_openapi args] \<and>
           fo_route_maps args = route_maps"
  using assms by (simp add: create_mcp_server_def Let_def split: prod.splits sum.splits)

text \<open>
  C1, as stated: for every configuration the list of route maps has one \<^verbatim>\<open>TOOL\<close> entry
  per route whose operation id is a key of the table, then the \<^verbatim>\<open>EXCLUDE\<close> entry.
  For a configuration whose name is not \<^verbatim>\<open>datainclusion\<close> the list is empty, although
  the operation id of the first route is a key of the table.
\<close>

theorem route_maps_every_configuration_counterexample:
  "build_route_maps (example_config\<lparr>name := ''other''\<rparr>) example_mappings example_routes = Inr [] \<and>
   map tool_route_map
     (filter (op_id_allowed [''list_structures'']) example_routes) @ [exclude_route_map]
     = [\<lparr>methods = Methods [''GET''], pattern = ''^/structures$'', mcp_type = TOOL\<rparr>,
        \<lparr>methods = AnyMethod, pattern = ''.*'', mcp_type = EXCLUDE\<rparr>]"
  by (simp add: build_route_maps_def op_id_allowed_def tool_route_map_def
      exclude_route_map_def example_defs)

text \<open>
  C1, amended: when the name of the configuration is \<^verbatim>\<open>datainclusion\<close> and the loaded
  mappings are a dictionary, the list of route maps that \<^verbatim>\<open>_create_mcp_server\<close> builds
  and passes to \<^verbatim>\<open>FastMCP.from_openapi\<close> holds, in the order of the routes, one
  \<^verbatim>\<open>TOOL\<close> entry with the route's method and the pattern \<^verbatim>\<open>^path$\<close> for each route
  whose operation id is a key of the mappings and for no other route, followed by one
  \<^verbatim>\<open>EXCLUDE\<close> entry. For every other name the list is empty: the factory selects
  nothing.
\<close>

theorem route_maps_selection:
  assumes "openapi_spec s = Some spec" and "spec \<noteq> []"
    and "http_routes s = Some routes" and "routes \<noteq> []"
    and "api_client s = Some client"
    and "tool_mappings s = JObj table"
  shows "\<exists>args. calls (snd (create_mcp_server e s)) = calls s @ [From_openapi args] \<and>
    (name (config s) = ''datainclusion'' \<longrightarrow>
       fo_route_maps args =
         map (\<lambda>route. \<lparr>methods = Methods [http_method route],
                        pattern = ''^'' @ path route @ ''$'', mcp_type = TOOL\<rparr>)
           (filter (\<lambda>route. \<exists>i v. operation_id route = Some i \<and> map_of table i = Some v)
              routes)
         @ [\<lparr>methods = AnyMethod, pattern = ''.*'', mcp_type = EXCLUDE\<rparr>]) \<and>
    (name (config s) \<noteq> ''datainclusion'' \<longrightarrow> fo_route_maps args = [])"
proof -
  let ?maps = "if name (config s) = ''datainclusion''
      then map tool_route_map (filter (op_id_allowed (map fst table)) routes)
             @ [exclude_route_map]
      else []"
  have "build_route_maps (config s) (tool_mappings s) routes = Inr ?maps"
    using assms(6) by (simp only: build_route_maps_dict)
  from create_mcp_server_call [OF assms(1-5) this]
  obtain args where args: "calls (snd (create_mcp_server e s)) = calls s @ [From_openapi args]"
      "fo_route_maps args = ?maps"
    by blast
  have sel: "filter (op_id_allowed (map fst table)) routes =
      filter (\<lambda>route. \<exists>i v. operation_id route = Some i \<and> map_of table i = Some v) routes"
    by (rule filter_cong) (simp_all add: op_id_allowed_keys)
  have tool: "tool_route_map =
      (\<lambda>route. \<lparr>methods = Methods [http_method route],
                  pattern = ''^'' @ path route @ ''$'', mcp_type = TOOL\<rparr>)"
    by (rule ext) (simp add: tool_route_map_def)
  show ?thesis
    using args by (auto simp: sel tool exclude_route_map_def)
qed

theorem route_maps_selection_witness:
  "\<exists>args. calls (snd (create_mcp_server example_env
              (example_factory\<lparr>openapi_spec := Some example_spec,
                 http_routes := Some example_routes, api_client := Some example_client,
                 tool_mappings := example_mappings\<rparr>))) = [From_openapi args] \<and>
     fo_route_maps args =
       [\<lparr>methods = Methods [''GET''], pattern = ''^/structures$'', mcp_type = TOOL\<rparr>,
        \<lparr>methods = AnyMethod, pattern = ''.*'', mcp_type = EXCLUDE\<rparr>]"
  using route_maps_selection
    [where s = "example_factory\<lparr>openapi_spec := Some example_spec,
                 http_routes := Some example_routes, api_client := Some example_client,
                 tool_mappings := example_mappings\<rparr>"
     and spec = example_spec and routes = example_routes and client = example_client
     and table = "[(''list_structures'', JStr ''list_all_structures'')]"
     and e = example_env]
  by (simp add: example_defs)

section \<open>Creating the API client\<close>

text \<open>
  C4: given a base URL that is set and true, and an authentication handler returned by
  \<^verbatim>\<open>create_auth_handler(config.auth)\<close>, \<^verbatim>\<open>_create_api_client\<close> makes one call of the
  \<^verbatim>\<open>httpx.AsyncClient\<close> constructor, with exactly that base URL, that handler as
  \<^verbatim>\<open>auth\<close>, the two fixed headers and the timeout 30.0; the headers hold no
  \<^verbatim>\<open>Authorization\<close> entry; and the client becomes the factory's client unless the
  constructor raises.
\<close>

theorem create_api_client_delegates:
  assumes "base_url s = Some u" and "truthy u"
    and "create_auth_handler e (auth (config s)) = Inr h"
    and "client = \<lparr>client_base_url = u,
           client_headers = [(''User-Agent'', ''DataInclusion-MCP-Server/1.0''),
                             (''Accept'', ''application/json'')],
           client_timeout = 30, client_auth = h\<rparr>"
  shows "calls (snd (create_api_client e s)) = calls s @ [New_AsyncClient client] \<and>
         map_of (client_headers client) ''Authorization'' = None \<and>
         (async_client_raises e client = None \<longrightarrow>
            create_api_client e s =
              (Inr (), s\<lparr>calls := calls s @ [New_AsyncClient client],
                         api_client := Some client\<rparr>)) \<and>
         (\<forall>err. async_client_raises e client = Some err \<longrightarrow>
            fst (create_api_client e s) = Inl err \<and>
            api_client (snd (create_api_client e s)) = api_client s)"
  using assms
  by (auto simp: create_api_client_def client_headers_const_def Let_def split: option.splits)

theorem create_api_client_delegates_witness:
  "create_api_client example_env
      (example_factory\<lparr>base_url := Some (JStr ''https://api.example.org'')\<rparr>) =
     (Inr (), example_factory\<lparr>base_url := Some (JStr ''https://api.example.org''),
                calls := [New_AsyncClient example_client],
                api_client := Some example_client\<rparr>) \<and>
   map_of (client_headers example_client) ''Authorization'' = None"
  using create_api_client_delegates
    [where s = "example_factory\<lparr>base_url := Some (JStr ''https://api.example.org'')\<rparr>"
     and u = "JStr ''https://api.example.org''" and e = example_env
     and h = "''handler for bearer''" and client = example_client]
  by (simp add: example_defs)

text \<open>
  The function of the same name in \<^verbatim>\<open>src/utils.py\<close> is another one: it does put an
  \<^verbatim>\<open>Authorization\<close> header together when the environment holds an API key. The
  factory does not call it.
\<close>

lemma utils_create_api_client_authorization:
  assumes "getenv ''DATA_INCLUSION_API_KEY'' = Some api_key" and "api_key \<noteq> []"
  shows "map_of (client_headers (utils_create_api_client getenv base)) ''Authorization''
           = Some (''Bearer '' @ api_key)"
  using assms by (simp add: utils_create_api_client_def)

section \<open>What each method does to the factory\<close>

lemma load_openapi_spec_effect:
  assumes "load_openapi_spec e s = (r, s')"
  shows "calls s' = calls s \<and> config s' = config s \<and> tool_mappings s' = tool_mappings s \<and>
         op_id_to_mangled_name s' = op_id_to_mangled_name s \<and> api_client s' = api_client s \<and>
         (\<forall>x. r = Inr x \<longrightarrow>
            (\<exists>spec. loader_load e (openapi_path_or_url (config s)) = Inr (spec, the (http_routes s'))
               \<and> http_routes s' \<noteq> None))"
  using assms by (auto simp: load_openapi_spec_def split: sum.splits prod.splits)

lemma determine_base_url_effect:
  assumes "determine_base_url s = (r, s')"
  shows "calls s' = calls s \<and> config s' = config s \<and> tool_mappings s' = tool_mappings s \<and>
         op_id_to_mangled_name s' = op_id_to_mangled_name s \<and> api_client s' = api_client s \<and>
         http_routes s' = http_routes s \<and> openapi_spec s' = openapi_spec s"
  using assms
  by (auto simp: determine_base_url_def Let_def
      split: option.splits if_splits sum.splits bool.splits)

lemma create_api_client_effect:
  assumes "create_api_client e s = (r, s')"
  shows "((calls s' = calls s \<and> api_client s' = api_client s \<and> (\<exists>err. r = Inl err)) \<or>
          (\<exists>c. calls s' = calls s @ [New_AsyncClient c] \<and>
               (case r of Inl err \<Rightarrow> api_client s' = api_client s
                | Inr x \<Rightarrow> api_client s' = Some c))) \<and>
         config s' = config s \<and> tool_mappings s' = tool_mappings s \<and>
         op_id_to_mangled_name s' = op_id_to_mangled_name s \<and>
         http_routes s' = http_routes s \<and> openapi_spec s' = openapi_spec s"
  using assms
  by (auto simp: create_api_client_def Let_def split: option.splits if_splits sum.splits)

lemma create_mcp_server_effect:
  assumes "create_mcp_server e s = (r, s')"
  shows "((calls s' = calls s \<and> op_id_to_mangled_name s' = op_id_to_mangled_name s \<and>
           (\<exists>err. r = Inl err)) \<or>
          (\<exists>args. calls s' = calls s @ [From_openapi args] \<and>
             custom_tool_names (fo_mcp_component_fn args) = tool_mappings s \<and>
             Some (tt_http_routes (fo_mcp_component_fn args)) = http_routes s \<and>
             op_id_map (fo_mcp_component_fn args) = op_id_to_mangled_name s \<and>
             snd (from_openapi e args) = op_id_to_mangled_name s' \<and>
             (case r of
                Inl err \<Rightarrow> fst (from_openapi e args) = Inl err
              | Inr srv \<Rightarrow>
                  (\<exists>base. fst (from_openapi e args) = Inr base \<and>
                     srv = base\<lparr>custom_routes := custom_routes base @ [health_route]\<rparr>)))) \<and>
         config s' = config s \<and> tool_mappings s' = tool_mappings s \<and>
         api_client s' = api_client s \<and>
         http_routes s' = http_routes s \<and> openapi_spec s' = openapi_spec s"
  using assms
  by (auto simp: create_mcp_server_def Let_def
      split: option.splits if_splits sum.splits prod.splits)

lemma transform_tools_effect:
  assumes "transform_tools e srv s = (r, s')"
  shows "((calls s' = calls s \<and> op_id_to_mangled_name s' = op_id_to_mangled_name s \<and>
           (\<exists>err. r = Inl err)) \<or>
          (\<exists>tt. calls s' = calls s @ [Transform_tools tt] \<and>
             custom_tool_names tt = tool_mappings s \<and>
             Some (tt_http_routes tt) = http_routes s \<and>
             op_id_map tt = op_id_to_mangled_name s \<and>
             tt_mcp_server tt = Some srv \<and>
             tt_transform_tools e tt = (r, op_id_to_mangled_name s'))) \<and>
         config s' = config s \<and> tool_mappings s' = tool_mappings s \<and>
         api_client s' = api_client s \<and>
         http_routes s' = http_routes s \<and> openapi_spec s' = openapi_spec s"
  using assms
  by (auto simp: transform_tools_def Let_def
      split: option.splits if_splits sum.splits prod.splits)

lemmas method_effects =
  load_openapi_spec_effect determine_base_url_effect create_api_client_effect
  create_mcp_server_effect transform_tools_effect


lemma close_client_effect:
  "calls (close_client s) = calls s \<or> (\<exists>c. calls (close_client s) = calls s @ [Aclose c])"
  by (auto simp: close_client_def split: option.splits)

lemma build_steps_transformers:
  assumes "build_steps e s = (r, s')"
    and "load_tool_mappings e (config s) = Inr mappings"
  shows "\<exists>new. calls s' = calls s @ new \<and>
    (\<forall>args. From_openapi args \<in> set new \<longrightarrow>
       custom_tool_names (fo_mcp_component_fn args) = mappings \<and>
       (\<exists>spec. loader_load e (openapi_path_or_url (config s))
                 = Inr (spec, tt_http_routes (fo_mcp_component_fn args))) \<and>
       op_id_map (fo_mcp_component_fn args) = op_id_to_mangled_name s) \<and>
    (\<forall>tt. Transform_tools tt \<in> set new \<longrightarrow>
       custom_tool_names tt = mappings \<and>
       (\<exists>spec. loader_load e (openapi_path_or_url (config s)) = Inr (spec, tt_http_routes tt)) \<and>
       (\<exists>args. From_openapi args \<in> set new \<and> snd (from_openapi e args) = op_id_map tt)) \<and>
    (\<forall>srv. r = Inr srv \<longrightarrow>
       (\<exists>args tt. From_openapi args \<in> set new \<and> Transform_tools tt \<in> set new)) \<and>
    (\<forall>c. Aclose c \<notin> set new)"
  using assms unfolding build_steps_def Let_def
  by (auto split: sum.splits prod.splits dest!: method_effects)

section \<open>The order of the steps of \<^verbatim>\<open>build\<close>\<close>



section \<open>The mappings reach both transformers\<close>

text \<open>
  C2: in every run of \<^verbatim>\<open>build\<close> in which \<^verbatim>\<open>_load_tool_mappings\<close> returned the
  dictionary \<open>mappings\<close>, the transformer given to \<^verbatim>\<open>FastMCP.from_openapi\<close> as
  \<^verbatim>\<open>mcp_component_fn\<close> and the transformer of \<^verbatim>\<open>_transform_tools\<close> both have exactly
  \<open>mappings\<close> as \<^verbatim>\<open>custom_tool_names\<close> and the routes the loader returned as
  \<^verbatim>\<open>http_routes\<close>; the first has the factory's \<^verbatim>\<open>op_id_to_mangled_name\<close> as
  \<^verbatim>\<open>op_id_map\<close> and the second has that dictionary as \<^verbatim>\<open>from_openapi\<close> left it. So
  the custom name applied to a tool is the value of \<open>mappings\<close> at the tool's operation
  id. A run that returns a server has made both calls.
\<close>

theorem build_passes_mappings_to_transformers:
  assumes "build e s = (r, s')"
    and "load_tool_mappings e (config s) = Inr mappings"
  shows "\<exists>new. calls s' = calls s @ new \<and>
    (\<forall>args. From_openapi args \<in> set new \<longrightarrow>
       custom_tool_names (fo_mcp_component_fn args) = mappings \<and>
       (\<exists>spec. loader_load e (openapi_path_or_url (config s))
                 = Inr (spec, tt_http_routes (fo_mcp_component_fn args))) \<and>
       op_id_map (fo_mcp_component_fn args) = op_id_to_mangled_name s \<and>
       (\<forall>op_id. custom_name_applied (fo_mcp_component_fn args) op_id =
                  (case mappings of JObj table \<Rightarrow> map_of table op_id | _ \<Rightarrow> None))) \<and>
    (\<forall>tt. Transform_tools tt \<in> set new \<longrightarrow>
       custom_tool_names tt = mappings \<and>
       (\<exists>spec. loader_load e (openapi_path_or_url (config s)) = Inr (spec, tt_http_routes tt)) \<and>
       (\<exists>args. From_openapi args \<in> set new \<and> snd (from_openapi e args) = op_id_map tt) \<and>
       (\<forall>op_id. custom_name_applied tt op_id =
                  (case mappings of JObj table \<Rightarrow> map_of table op_id | _ \<Rightarrow> None))) \<and>
    (\<forall>srv. r = Inr srv \<longrightarrow>
       (\<exists>args tt. From_openapi args \<in> set new \<and> Transform_tools tt \<in> set new))"
proof -
  obtain r1 s1 where steps: "build_steps e s = (r1, s1)"
    by (cases "build_steps e s")
  from build_steps_transformers [OF steps assms(2)]
  obtain new where new: "calls s1 = calls s @ new \<and>
    (\<forall>args. From_openapi args \<in> set new \<longrightarrow>
       custom_tool_names (fo_mcp_component_fn args) = mappings \<and>
       (\<exists>spec. loader_load e (openapi_path_or_url (config s))
                 = Inr (spec, tt_http_routes (fo_mcp_component_fn args))) \<and>
       op_id_map (fo_mcp_component_fn args) = op_id_to_mangled_name s) \<and>
    (\<forall>tt. Transform_tools tt \<in> set new \<longrightarrow>
       custom_tool_names tt = mappings \<and>
       (\<exists>spec. loader_load e (openapi_path_or_url (config s)) = Inr (spec, tt_http_routes tt)) \<and>
       (\<exists>args. From_openapi args \<in> set new \<and> snd (from_openapi e args) = op_id_map tt)) \<and>
    (\<forall>srv. r1 = Inr srv \<longrightarrow>
       (\<exists>args tt. From_openapi args \<in> set new \<and> Transform_tools tt \<in> set new)) \<and>
    (\<forall>c. Aclose c \<notin> set new)" ..
  have r: "r = r1"
    using steps assms(1) by (auto simp: build_def split: sum.splits if_splits)
  have "s' = s1 \<or> s' = close_client s1"
    using steps assms(1) by (auto simp: build_def split: sum.splits if_splits)
  with close_client_effect [of s1]
  have "calls s' = calls s1 \<or> (\<exists>c. calls s' = calls s1 @ [Aclose c])"
    by auto
  then obtain extra where extra: "calls s' = calls s1 @ extra"
      "\<forall>x \<in> set extra. \<exists>c. x = Aclose c"
    by auto
  have "calls s' = calls s @ (new @ extra)"
    using new extra by simp
  moreover have "From_openapi args \<in> set (new @ extra) \<longleftrightarrow> From_openapi args \<in> set new"
    for args using extra(2) by auto
  moreover have "Transform_tools tt \<in> set (new @ extra) \<longleftrightarrow> Transform_tools tt \<in> set new"
    for tt using extra(2) by auto
  ultimately show ?thesis
    using new r by (intro exI [of _ "new @ extra"]) (simp add: custom_name_applied_def)
qed

theorem build_passes_mappings_to_transformers_witness:
  "\<exists>args tt.
     From_openapi args \<in> set (calls (snd (build example_env example_factory))) \<and>
     Transform_tools tt \<in> set (calls (snd (build example_env example_factory))) \<and>
     custom_tool_names (fo_mcp_component_fn args) = example_mappings \<and>
     custom_tool_names tt = example_mappings \<and>
     custom_name_applied tt ''list_structures'' = Some (JStr ''list_all_structures'')"
proof -
  have "fst (build example_env example_factory) =
       Inr \<lparr>server_name = ''datainclusion'', tool_names = [''list_all_structures''],
            custom_routes = [(''/health'', [''GET''])]\<rparr>"
    by (simp add: build_def build_steps_def enter_def load_tool_mappings_def open_and_load_def
        load_openapi_spec_def determine_base_url_def dict_get_def servers_nonempty_list_def
        create_api_client_def create_mcp_server_def build_route_maps_def transform_tools_def
        client_headers_const_def health_route_def Let_def example_defs)
  then have run: "build example_env example_factory =
       (Inr \<lparr>server_name = ''datainclusion'', tool_names = [''list_all_structures''],
             custom_routes = [(''/health'', [''GET''])]\<rparr>,
        snd (build example_env example_factory))"
    by (metis prod.collapse)
  have mappings: "load_tool_mappings example_env (config example_factory) = Inr example_mappings"
    by (simp add: load_tool_mappings_def open_and_load_def example_env_def example_config_def
        example_fs_def example_json_loads_def example_factory_def init_def)
  have start: "calls example_factory = []"
    by (simp add: example_defs)
  have table: "(case example_mappings of JObj table \<Rightarrow> map_of table ''list_structures''
                 | _ \<Rightarrow> None) = Some (JStr ''list_all_structures'')"
    by (simp add: example_mappings_def)
  from build_passes_mappings_to_transformers [OF run mappings] show ?thesis
    unfolding start table [symmetric] by fastforce
qed

section \<open>A failing step\<close>

lemma build_steps_client:
  assumes "build_steps e s = (r, s1)"
  shows "\<exists>new. calls s1 = calls s @ new \<and>
           (CreateMcpServer \<in> set (steps_entered new) \<longrightarrow>
              (\<exists>client. New_AsyncClient client \<in> set new \<and> api_client s1 = Some client))"
  using assms unfolding build_steps_def Let_def
  by (auto simp: steps_entered_append
      split: sum.splits prod.splits dest!: method_effects)

text \<open>
  C7, as stated: whenever a step raises and a client has been created, \<^verbatim>\<open>build\<close>
  closes the client. When the task is cancelled in \<^verbatim>\<open>_transform_tools\<close>, the
  \<^verbatim>\<open>CancelledError\<close> is no instance of \<^verbatim>\<open>Exception\<close>, the handler does not run,
  and the client made by \<^verbatim>\<open>_create_api_client\<close> stays open.
\<close>

theorem build_cancelled_leaves_client_open_counterexample:
  "fst (build example_cancelled_env example_factory) = Inl (NonException ''CancelledError'') \<and>
   api_client (snd (build example_cancelled_env example_factory)) = Some example_client \<and>
   Aclose example_client \<notin> set (calls (snd (build example_cancelled_env example_factory)))"
  by (simp add: build_def build_steps_def enter_def load_tool_mappings_def open_and_load_def
      load_openapi_spec_def determine_base_url_def dict_get_def servers_nonempty_list_def
      create_api_client_def create_mcp_server_def build_route_maps_def transform_tools_def
      client_headers_const_def health_route_def Let_def example_defs)

text \<open>
  C7, amended: when a step of \<^verbatim>\<open>build\<close> raises, \<^verbatim>\<open>build\<close> raises that same
  exception and returns no server. When the exception is an instance of
  \<^verbatim>\<open>Exception\<close>, \<^verbatim>\<open>build\<close> first closes the client if \<^verbatim>\<open>self.api_client\<close> is set,
  and does nothing else if it is not; when it is not an instance of \<^verbatim>\<open>Exception\<close>
  (a cancellation, a keyboard interrupt), the factory is left as the failing step left
  it and the client is not closed. When the failing step is \<^verbatim>\<open>_create_mcp_server\<close> or
  \<^verbatim>\<open>_transform_tools\<close>, the client is set: it is the one \<^verbatim>\<open>_create_api_client\<close> made
  in this run.
\<close>

theorem build_failure_closes_client_and_reraises:
  assumes "fst (build_steps e s) = Inl err"
  shows "fst (build e s) = Inl err \<and>
    (is_Exception err \<longrightarrow>
       (\<forall>client. api_client (snd (build_steps e s)) = Some client \<longrightarrow>
          snd (build e s) =
            (snd (build_steps e s))\<lparr>calls := calls (snd (build_steps e s)) @ [Aclose client]\<rparr>) \<and>
       (api_client (snd (build_steps e s)) = None \<longrightarrow>
          snd (build e s) = snd (build_steps e s))) \<and>
    (\<not> is_Exception err \<longrightarrow> snd (build e s) = snd (build_steps e s)) \<and>
    (\<forall>new. calls (snd (build_steps e s)) = calls s @ new \<and>
           CreateMcpServer \<in> set (steps_entered new) \<longrightarrow>
           (\<exists>client. New_AsyncClient client \<in> set new \<and>
              api_client (snd (build_steps e s)) = Some client))"
proof -
  obtain s1 where steps: "build_steps e s = (Inl err, s1)"
    using assms by (cases "build_steps e s") simp
  have caught: "is_Exception err \<Longrightarrow> build e s = (Inl err, close_client s1)"
    using steps by (simp add: build_def)
  have passed: "\<not> is_Exception err \<Longrightarrow> build e s = (Inl err, s1)"
    using steps by (simp add: build_def)
  from build_steps_client [OF steps]
  obtain new where new: "calls s1 = calls s @ new \<and>
      (CreateMcpServer \<in> set (steps_entered new) \<longrightarrow>
         (\<exists>client. New_AsyncClient client \<in> set new \<and> api_client s1 = Some client))" ..
  show ?thesis
  proof (cases "is_Exception err")
    case True
    with new show ?thesis
      by (auto simp: steps caught close_client_def)
  next
    case False
    with new show ?thesis
      by (auto simp: steps passed)
  qed
qed

theorem build_failure_closes_client_and_reraises_witness:
  "fst (build example_failing_env example_factory) = Inl (ValueError ''invalid specification'') \<and>
   calls (snd (build example_failing_env example_factory)) =
     calls (snd (build_steps example_failing_env example_factory)) @ [Aclose example_client] \<and>
   build example_cancelled_env example_factory =
     (Inl (NonException ''CancelledError''),
      snd (build_steps example_cancelled_env example_factory))"
proof -
  have err: "fst (build_steps example_failing_env example_factory) =
      Inl (ValueError ''invalid specification'')"
    by (simp add: build_steps_def enter_def load_tool_mappings_def open_and_load_def
        load_openapi_spec_def determine_base_url_def dict_get_def servers_nonempty_list_def
        create_api_client_def create_mcp_server_def build_route_maps_def transform_tools_def
        client_headers_const_def health_route_def Let_def example_defs)
  have client: "api_client (snd (build_steps example_failing_env example_factory)) =
      Some example_client"
    by (simp add: build_steps_def enter_def load_tool_mappings_def open_and_load_def
        load_openapi_spec_def determine_base_url_def dict_get_def servers_nonempty_list_def
        create_api_client_def create_mcp_server_def build_route_maps_def transform_tools_def
        client_headers_const_def health_route_def Let_def example_defs)
  have cancelled: "fst (build_steps example_cancelled_env example_factory) =
      Inl (NonException ''CancelledError'')"
    by (simp add: build_steps_def enter_def load_tool_mappings_def open_and_load_def
        load_openapi_spec_def determine_base_url_def dict_get_def servers_nonempty_list_def
        create_api_client_def create_mcp_server_def build_route_maps_def transform_tools_def
        client_headers_const_def health_route_def Let_def example_defs)
  from build_failure_closes_client_and_reraises [OF err] client
    build_failure_closes_client_and_reraises [OF cancelled]
  show ?thesis
    by (simp add: prod_eq_iff)
qed

end
